theory Spec2Isabelle
  imports Complex_Main
begin

section \<open>Data model\<close>

text \<open>
  The charge state of the vehicle as both programs read it: the fields of
  \<^verbatim>\<open>data.response\<close> that \<^verbatim>\<open>constructLametricData\<close> accesses in \<^verbatim>\<open>app.js\<close>
  (\<^verbatim>\<open>charge_rate\<close>, \<^verbatim>\<open>charge_miles_added_ideal\<close>, \<^verbatim>\<open>time_to_full_charge\<close>), in the
  second program (\<^verbatim>\<open>charger_actual_current\<close>) and in both (\<^verbatim>\<open>battery_level\<close>,
  \<^verbatim>\<open>battery_range\<close>). A field holds the value of a finite JavaScript Number, which
  is a rational.
\<close>

record charge_state =
  battery_level :: rat
  battery_range :: rat
  charge_rate :: rat
  charge_miles_added_ideal :: rat
  time_to_full_charge :: rat
  charger_actual_current :: rat

record vehicle_data =
  response :: charge_state

text \<open>A frame of the display; \<^verbatim>\<open>index\<close> is present in the second program only.\<close>

record frame =
  "text" :: string
  icon :: string
  index :: "nat option"

record lametric_data =
  frames :: "frame list"

text \<open>
  What the awaits on the wake-up request deliver: the state string of the reply, or a
  rejection (the request fails, the body is not JSON, or it has no \<^verbatim>\<open>response\<close>).
\<close>

datatype wake_reply = Wake_failed | Wake_state string

datatype charge_reply = Charge_failed | Charge_data vehicle_data

datatype error = Rejected

text \<open>The effects of a run, in the order in which they happen.\<close>

datatype event =
    Console string
  | Console_data vehicle_data
  | Console_message lametric_data
  | Console_response
  | Wake_up wake_reply
  | Timeout nat
  | Charge_request charge_reply
  | Lametric_post lametric_data

text \<open>
  The world outside the program: the reply of the vehicle API to each wake-up request
  (numbered from 0), its reply to the charge-state request, whether the request to the
  display API is fulfilled, and the effects so far.
\<close>

record world =
  wake_replies :: "nat \<Rightarrow> wake_reply"
  charge_reply :: charge_reply
  lametric_reply :: bool
  trace :: "event list"

definition emit :: "event \<Rightarrow> world \<Rightarrow> world" where
  "emit e w = w\<lparr>trace := trace w @ [e]\<rparr>"

definition console :: "string \<Rightarrow> world \<Rightarrow> world" where
  "console s w = emit (Console s) w"

fun wake_responses :: "event list \<Rightarrow> wake_reply list" where
  "wake_responses [] = []"
| "wake_responses (Wake_up r # es) = r # wake_responses es"
| "wake_responses (e # es) = wake_responses es"

definition wake_requests :: "event list \<Rightarrow> nat" where
  "wake_requests es = length (wake_responses es)"

text \<open>\<^verbatim>\<open>await fetch(WAKE_UP, ...)\<close> followed by \<^verbatim>\<open>await res.json()\<close>.\<close>

definition fetch_WAKE_UP :: "world \<Rightarrow> wake_reply \<times> world" where
  "fetch_WAKE_UP w =
     (let r = wake_replies w (wake_requests (trace w)) in (r, emit (Wake_up r) w))"

text \<open>\<^verbatim>\<open>await new Promise((resolve) => setTimeout(resolve, ms))\<close>.\<close>

definition setTimeout :: "nat \<Rightarrow> world \<Rightarrow> world" where
  "setTimeout ms w = emit (Timeout ms) w"

section \<open>The wake-up loop\<close>

text \<open>
  \<^verbatim>\<open>wakeUpVehicle(attempt=1)\<close>, the same in both programs. The value of the recursive
  call is awaited and dropped: a rejection propagates, a returned boolean does not, and
  control falls through to the last two statements.
\<close>

function wakeUpVehicle :: "nat \<Rightarrow> world \<Rightarrow> (error + bool) \<times> world" where
  "wakeUpVehicle attempt w =
     (let w1 = console ''Attempting to wake up vehicle...'' w;
          (reply, w2) = fetch_WAKE_UP w1
      in case reply of
           Wake_failed \<Rightarrow> (Inl Rejected, w2)
         | Wake_state state \<Rightarrow>
             if state \<noteq> ''online'' then
               if attempt \<ge> 6 then
                 (Inr False, console ''Vehicle did not wake up. Exiting process.'' w2)
               else
                 let w3 = console (''Vehicle is still '' @ state @ ''. Retrying in 30 seconds...'') w2;
                     w4 = setTimeout 30000 w3;
                     (r, w5) = wakeUpVehicle (attempt + 1) w4
                 in case r of
                      Inl e \<Rightarrow> (Inl e, w5)
                    | Inr b \<Rightarrow> (Inr True, console ''Vehicle is a awake!'' w5)
             else (Inr True, console ''Vehicle is a awake!'' w2))"
  by pat_completeness auto
termination
  by (relation "measure (\<lambda>(attempt, w). 6 - attempt)") auto

declare wakeUpVehicle.simps [simp del]

section \<open>Numbers as text\<close>

text \<open>
  \<^verbatim>\<open>Math.round\<close> returns the integer closest to its argument, and of two equally
  close ones the one towards \<open>+\<infinity>\<close>.
\<close>

definition Math_round :: "rat \<Rightarrow> int" where
  "Math_round x = \<lfloor>x + 1 / 2\<rfloor>"

text \<open>
  The text that \<^verbatim>\<open>+\<close> with a string makes of an integral Number, modelled as the
  exact decimal numeral of the integer, with a minus sign below zero. This is what
  JavaScript prints for magnitudes below \<open>2\<^sup>5\<^sup>3\<close>, where every integer is a Number of
  its own. From \<open>2\<^sup>5\<^sup>3\<close> on JavaScript prints the shortest digits that identify the
  Number, filled up with zeros, and from \<open>10\<^sup>2\<^sup>1\<close> on it uses exponent notation;
  there the text of the model and that of JavaScript differ.
\<close>

fun decimal :: "nat \<Rightarrow> string" where
  "decimal n =
     (if n < 10 then [''0123456789'' ! n]
      else decimal (n div 10) @ [''0123456789'' ! (n mod 10)])"

declare decimal.simps [simp del]

definition Number_toString :: "int \<Rightarrow> string" where
  "Number_toString n = (if n < 0 then ''-'' @ decimal (nat (- n)) else decimal (nat n))"

definition Boolean_toString :: "bool \<Rightarrow> string" where
  "Boolean_toString b = (if b then ''true'' else ''false'')"

section \<open>Icons and frames\<close>

text \<open>\<^verbatim>\<open>getIcon\<close> of \<^verbatim>\<open>app.js\<close>.\<close>

definition getIcon_app :: "rat \<Rightarrow> bool \<Rightarrow> string" where
  "getIcon_app batteryLevel isCharging =
     (if isCharging then ''21585''
      else if batteryLevel < 25 then ''i6359''
      else if batteryLevel < 50 then ''i6360''
      else if batteryLevel < 75 then ''i6361''
      else if batteryLevel < 95 then ''i6362''
      else ''i6363'')"

text \<open>\<^verbatim>\<open>getIcon\<close> of the second program.\<close>

definition getIcon_part0 :: "rat \<Rightarrow> bool \<Rightarrow> string" where
  "getIcon_part0 batteryLevel isCharging =
     (if \<not> isCharging then ''3582''
      else if batteryLevel < 25 then ''i6359''
      else if batteryLevel < 50 then ''i6360''
      else if batteryLevel < 75 then ''i6361''
      else if batteryLevel < 95 then ''i6362''
      else ''i6363'')"

text \<open>
  \<^verbatim>\<open>constructLametricData\<close> of \<^verbatim>\<open>app.js\<close>. It builds the frames and writes them to
  the console.
\<close>

definition constructLametricData_app :: "vehicle_data \<Rightarrow> world \<Rightarrow> lametric_data \<times> world" where
  "constructLametricData_app data w =
     (let isCharging = (charge_rate (response data) \<noteq> - 1);
          frames0 =
            [\<lparr>text = ''Tesla'', icon = ''i2735'', index = None\<rparr>,
             \<lparr>text = Number_toString (Math_round (battery_level (response data))) @ ''%'',
              icon = getIcon_app (battery_level (response data)) isCharging, index = None\<rparr>,
             \<lparr>text = Number_toString (Math_round (battery_range (response data))) @ '' mi'',
              icon = ''16716'', index = None\<rparr>];
          isChargingData =
            [\<lparr>text = ''+'' @ Number_toString (Math_round (charge_miles_added_ideal (response data))) @ '' mi'',
              icon = ''i95'', index = None\<rparr>,
             \<lparr>text = Number_toString (Math_round (charge_rate (response data))) @ '' mph'',
              icon = ''i95'', index = None\<rparr>,
             \<lparr>text = Number_toString (Math_round (time_to_full_charge (response data))) @ '' hours remaining.'',
              icon = ''i95'', index = None\<rparr>];
          frames1 = (if isCharging then frames0 @ isChargingData else frames0);
          lametricRestData = \<lparr>frames = frames1\<rparr>
      in (lametricRestData, emit (Console_message lametricRestData) w))"

text \<open>\<^verbatim>\<open>constructLametricData\<close> of the second program.\<close>

definition constructLametricData_part0 :: "vehicle_data \<Rightarrow> world \<Rightarrow> lametric_data \<times> world" where
  "constructLametricData_part0 data w =
     (let isCharging = (charger_actual_current (response data) > 0);
          frames0 =
            [\<lparr>text = ''Tesla'', icon = ''i2735'', index = Some 0\<rparr>,
             \<lparr>text = Number_toString (Math_round (battery_level (response data))) @ ''%'',
              icon = getIcon_part0 (battery_level (response data)) isCharging, index = Some 1\<rparr>,
             \<lparr>text = Number_toString (Math_round (battery_range (response data))) @ '' mi'',
              icon = ''i16716'', index = Some 2\<rparr>];
          lametricRestData = \<lparr>frames = frames0\<rparr>
      in (lametricRestData, emit (Console_message lametricRestData) w))"

section \<open>The run\<close>

text \<open>\<^verbatim>\<open>getChargeData\<close>: one request, no retry.\<close>

definition getChargeData :: "world \<Rightarrow> (error + vehicle_data) \<times> world" where
  "getChargeData w =
     (let w1 = console ''Attempting to get charge data...'' w;
          w2 = emit (Charge_request (charge_reply w1)) w1
      in case charge_reply w1 of
           Charge_failed \<Rightarrow> (Inl Rejected, w2)
         | Charge_data data \<Rightarrow>
             (Inr data, emit (Console_data data) (console ''Data fetched succesfully!'' w2)))"

text \<open>
  \<^verbatim>\<open>pushLametricData\<close>: the request is sent and not awaited; its continuation writes
  to the console once the request is fulfilled.
\<close>

definition pushLametricData :: "lametric_data \<Rightarrow> world \<Rightarrow> world" where
  "pushLametricData messageBody w =
     (let w1 = emit (Lametric_post messageBody) w
      in if lametric_reply w1 then
           console ''----------------------------------------------------------''
             (emit Console_response (console ''Update sent!'' w1))
         else w1)"

text \<open>\<^verbatim>\<open>runApp\<close> of \<^verbatim>\<open>app.js\<close>.\<close>

definition runApp :: "world \<Rightarrow> (error + unit) \<times> world" where
  "runApp w =
     (let (r, w1) = wakeUpVehicle 1 w
      in case r of
           Inl e \<Rightarrow> (Inl e, w1)
         | Inr isAwake \<Rightarrow>
             let w2 = console (''isAwake: '' @ Boolean_toString isAwake) w1
             in if isAwake then
                  let (d, w3) = getChargeData w2
                  in case d of
                       Inl e \<Rightarrow> (Inl e, w3)
                     | Inr vehicleData \<Rightarrow>
                         let (lametricData, w4) = constructLametricData_app vehicleData w3
                         in (Inr (), pushLametricData lametricData w4)
                else (Inr (), w2))"

text \<open>A world at the start of a run.\<close>

definition start :: "(nat \<Rightarrow> wake_reply) \<Rightarrow> charge_reply \<Rightarrow> world" where
  "start replies charge =
     \<lparr>wake_replies = replies, charge_reply = charge, lametric_reply = True, trace = []\<rparr>"

section \<open>Notions of the specification\<close>

text \<open>
  Rounding half away from zero, as the specification words it: the magnitude goes to
  the nearer whole number, a half goes up, and the sign is put back.
\<close>

definition round_half_away_from_zero :: "rat \<Rightarrow> int" where
  "round_half_away_from_zero x =
     (let whole = \<lfloor>\<bar>x\<bar>\<rfloor>;
          magnitude = (if \<bar>x\<bar> - of_int whole < 1 / 2 then whole else whole + 1)
      in if x < 0 then - magnitude else magnitude)"

text \<open>
  The bands of the specification, \<open>[0,25)\<close>, \<open>[25,50)\<close>, \<open>[50,75)\<close>, \<open>[75,95)\<close> and
  \<open>[95,100]\<close>, each with the icon the programs return on it; the flag marks the band
  that includes its upper bound.
\<close>

definition tier_bands :: "(rat \<times> rat \<times> bool \<times> string) list" where
  "tier_bands =
     [(0, 25, False, ''i6359''), (25, 50, False, ''i6360''), (50, 75, False, ''i6361''),
      (75, 95, False, ''i6362''), (95, 100, True, ''i6363'')]"

fun in_band :: "rat \<Rightarrow> rat \<times> rat \<times> bool \<times> string \<Rightarrow> bool" where
  "in_band b (lo, hi, inclusive, ic) = (lo \<le> b \<and> (b < hi \<or> (inclusive \<and> b = hi)))"

definition band_icons :: "rat \<Rightarrow> string list" where
  "band_icons b = map (\<lambda>(lo, hi, inclusive, ic). ic) (filter (in_band b) tier_bands)"

text \<open>
  A non-negative Number below \<open>10\<^sup>2\<^sup>1\<close>, which JavaScript prints in digits without an
  exponent (and, below \<open>2\<^sup>5\<^sup>3\<close>, in exactly the digits of \<open>Number_toString\<close>).
\<close>

definition plain_nonneg :: "rat \<Rightarrow> bool" where
  "plain_nonneg x = (0 \<le> x \<and> x < 10 ^ 21)"

text \<open>The charging rule that the specification gives for the fixed three-frame layout.\<close>

definition isCharging_spec_A :: "vehicle_data \<Rightarrow> bool" where
  "isCharging_spec_A data = (charge_rate (response data) > 0)"

text \<open>The delays of a trace, and the events that follow its \<open>n\<close>-th wake-up request.\<close>

fun backoffs :: "event list \<Rightarrow> nat list" where
  "backoffs [] = []"
| "backoffs (Timeout ms # es) = ms # backoffs es"
| "backoffs (e # es) = backoffs es"

fun after_wake_up :: "nat \<Rightarrow> event list \<Rightarrow> event list" where
  "after_wake_up n [] = []"
| "after_wake_up n (Wake_up r # es) = (if n \<le> 1 then es else after_wake_up (n - 1) es)"
| "after_wake_up n (e # es) = after_wake_up n es"

fun still_waiting :: "wake_reply \<Rightarrow> bool" where
  "still_waiting Wake_failed = False"
| "still_waiting (Wake_state state) = (state \<noteq> ''online'')"

text \<open>
  Example inputs: the reading of the end-to-end scenario with a given charge rate and
  charger current, a reading with the charger current at zero, a vehicle that reports
  \<^verbatim>\<open>asleep\<close> until its \<open>m\<close>-th reply, and one that always reports the same state.
\<close>

definition scenario :: "rat \<Rightarrow> rat \<Rightarrow> vehicle_data" where
  "scenario rate current =
     \<lparr>response = \<lparr>battery_level = 60, battery_range = 180.2, charge_rate = rate,
        charge_miles_added_ideal = 5.3, time_to_full_charge = 1.4,
        charger_actual_current = current\<rparr>\<rparr>"

definition asleep_until :: "nat \<Rightarrow> nat \<Rightarrow> wake_reply" where
  "asleep_until m k = Wake_state (if k + 1 < m then ''asleep'' else ''online'')"

definition always :: "string \<Rightarrow> nat \<Rightarrow> wake_reply" where
  "always s k = Wake_state s"

definition reading :: "rat \<Rightarrow> rat \<Rightarrow> rat \<Rightarrow> rat \<Rightarrow> rat \<Rightarrow> vehicle_data" where
  "reading level miles_left rate miles hours =
     \<lparr>response = \<lparr>battery_level = level, battery_range = miles_left, charge_rate = rate,
        charge_miles_added_ideal = miles, time_to_full_charge = hours,
        charger_actual_current = 0\<rparr>\<rparr>"

text \<open>What one call of \<^verbatim>\<open>wakeUpVehicle\<close> adds to the trace, used as induction invariant.\<close>

definition wake_run :: "nat \<Rightarrow> world \<Rightarrow> (error + bool) \<times> world \<Rightarrow> event list \<Rightarrow> bool" where
  "wake_run a w res new \<longleftrightarrow>
     trace (snd res) = trace w @ new
   \<and> wake_replies (snd res) = wake_replies w
   \<and> wake_responses new \<noteq> []
   \<and> length (wake_responses new) \<le> max 1 (7 - a)
   \<and> wake_responses new =
       map (wake_replies w)
         [wake_requests (trace w) ..< wake_requests (trace w) + length (wake_responses new)]
   \<and> list_all still_waiting (butlast (wake_responses new))
   \<and> backoffs (after_wake_up (length (wake_responses new)) new) = []
   \<and> (last (wake_responses new) = Wake_state ''online'' \<longrightarrow> fst res = Inr True)
   \<and> (still_waiting (last (wake_responses new)) \<longrightarrow> 7 \<le> a + length (wake_responses new))
   \<and> backoffs new = replicate (length (wake_responses new) - 1) 30000"

section \<open>Auxiliary facts\<close>

lemma frames_app:
  "frames (fst (constructLametricData_app d w)) =
     [\<lparr>text = ''Tesla'', icon = ''i2735'', index = None\<rparr>,
      \<lparr>text = Number_toString (Math_round (battery_level (response d))) @ ''%'',
       icon = getIcon_app (battery_level (response d)) (charge_rate (response d) \<noteq> - 1), index = None\<rparr>,
      \<lparr>text = Number_toString (Math_round (battery_range (response d))) @ '' mi'',
       icon = ''16716'', index = None\<rparr>] @
     (if charge_rate (response d) = - 1 then []
      else [\<lparr>text = ''+'' @ Number_toString (Math_round (charge_miles_added_ideal (response d))) @ '' mi'',
              icon = ''i95'', index = None\<rparr>,
            \<lparr>text = Number_toString (Math_round (charge_rate (response d))) @ '' mph'',
              icon = ''i95'', index = None\<rparr>,
            \<lparr>text = Number_toString (Math_round (time_to_full_charge (response d))) @ '' hours remaining.'',
              icon = ''i95'', index = None\<rparr>])"
  by (simp add: constructLametricData_app_def Let_def)

lemma frames_part0:
  "frames (fst (constructLametricData_part0 d w)) =
     [\<lparr>text = ''Tesla'', icon = ''i2735'', index = Some 0\<rparr>,
      \<lparr>text = Number_toString (Math_round (battery_level (response d))) @ ''%'',
       icon = getIcon_part0 (battery_level (response d)) (0 < charger_actual_current (response d)),
       index = Some 1\<rparr>,
      \<lparr>text = Number_toString (Math_round (battery_range (response d))) @ '' mi'',
       icon = ''i16716'', index = Some 2\<rparr>]"
  by (simp add: constructLametricData_part0_def Let_def)

lemma Math_round_nonneg: "0 \<le> x \<Longrightarrow> Math_round x = round_half_away_from_zero x"
  unfolding Math_round_def round_half_away_from_zero_def Let_def
  by (auto simp: abs_if) linarith+

lemma Math_round_near: "\<bar>x - of_int (Math_round x)\<bar> \<le> 1 / 2"
  unfolding Math_round_def by linarith

lemma scenario_sel [simp]:
  "battery_level (response (scenario r c)) = 60"
  "battery_range (response (scenario r c)) = 180.2"
  "charge_rate (response (scenario r c)) = r"
  "charge_miles_added_ideal (response (scenario r c)) = 5.3"
  "time_to_full_charge (response (scenario r c)) = 1.4"
  "charger_actual_current (response (scenario r c)) = c"
  by (simp_all add: scenario_def)

lemma reading_sel [simp]:
  "battery_level (response (reading l r c m h)) = l"
  "battery_range (response (reading l r c m h)) = r"
  "charge_rate (response (reading l r c m h)) = c"
  "charge_miles_added_ideal (response (reading l r c m h)) = m"
  "time_to_full_charge (response (reading l r c m h)) = h"
  "charger_actual_current (response (reading l r c m h)) = 0"
  by (simp_all add: reading_def)

lemma rendered_values:
  "Number_toString (Math_round 60) = ''60''"
  "Number_toString (Math_round (901 / 5)) = ''180''"
  "Number_toString (Math_round (53 / 10)) = ''5''"
  "Number_toString (Math_round 22) = ''22''"
  "Number_toString (Math_round (7 / 5)) = ''1''"
  "Number_toString (Math_round 0) = ''0''"
  "Number_toString (Math_round (438 / 5)) = ''88''"
  "Number_toString (Math_round (712 / 5)) = ''142''"
  "Number_toString (Math_round (175 / 2)) = ''88''"
  "Number_toString (Math_round (285 / 2)) = ''143''"
  "Number_toString (Math_round (11 / 2)) = ''6''"
  "Number_toString (Math_round (1 / 2)) = ''1''"
  by code_simp+

lemma wake_responses_append [simp]:
  "wake_responses (xs @ ys) = wake_responses xs @ wake_responses ys"
  by (induction xs rule: wake_responses.induct) simp_all

lemma backoffs_append [simp]: "backoffs (xs @ ys) = backoffs xs @ backoffs ys"
  by (induction xs rule: backoffs.induct) simp_all

lemma after_wake_up_append:
  "1 \<le> n \<Longrightarrow> n \<le> length (wake_responses xs) \<Longrightarrow>
   after_wake_up n (xs @ ys) = after_wake_up n xs @ ys"
  by (induction n xs rule: after_wake_up.induct) auto

lemma wake_failed:
  assumes "wake_replies w (wake_requests (trace w)) = Wake_failed"
  shows "wakeUpVehicle a w =
    (Inl Rejected,
     w\<lparr>trace := trace w @ [Console ''Attempting to wake up vehicle...'', Wake_up Wake_failed]\<rparr>)"
  using assms
  by (subst wakeUpVehicle.simps)
     (simp add: console_def emit_def fetch_WAKE_UP_def wake_requests_def Let_def)

lemma wake_online:
  assumes "wake_replies w (wake_requests (trace w)) = Wake_state ''online''"
  shows "wakeUpVehicle a w =
    (Inr True,
     w\<lparr>trace := trace w @ [Console ''Attempting to wake up vehicle...'',
        Wake_up (Wake_state ''online''), Console ''Vehicle is a awake!'']\<rparr>)"
  using assms
  by (subst wakeUpVehicle.simps)
     (simp add: console_def emit_def fetch_WAKE_UP_def wake_requests_def Let_def)

lemma wake_gave_up:
  assumes "wake_replies w (wake_requests (trace w)) = Wake_state s" and "s \<noteq> ''online''"
    and "6 \<le> a"
  shows "wakeUpVehicle a w =
    (Inr False,
     w\<lparr>trace := trace w @ [Console ''Attempting to wake up vehicle...'',
        Wake_up (Wake_state s), Console ''Vehicle did not wake up. Exiting process.'']\<rparr>)"
  using assms
  by (subst wakeUpVehicle.simps)
     (simp add: console_def emit_def fetch_WAKE_UP_def wake_requests_def Let_def)

lemma wake_retry:
  assumes "wake_replies w (wake_requests (trace w)) = Wake_state s" and "s \<noteq> ''online''"
    and "a < 6"
  shows "wakeUpVehicle a w =
    (case wakeUpVehicle (a + 1)
            (w\<lparr>trace := trace w @ [Console ''Attempting to wake up vehicle...'',
               Wake_up (Wake_state s),
               Console (''Vehicle is still '' @ s @ ''. Retrying in 30 seconds...''),
               Timeout 30000]\<rparr>) of
       (Inl e, w5) \<Rightarrow> (Inl e, w5)
     | (Inr b, w5) \<Rightarrow> (Inr True, w5\<lparr>trace := trace w5 @ [Console ''Vehicle is a awake!'']\<rparr>))"
  using assms
  by (subst wakeUpVehicle.simps)
     (simp add: console_def emit_def fetch_WAKE_UP_def wake_requests_def setTimeout_def Let_def
           split: prod.splits sum.splits)


lemma wake_run_retry:
  assumes inner: "wake_run (a + 1) w4 res' new'"
    and w4: "w4 = w\<lparr>trace := trace w @ [Console c1, Wake_up (Wake_state s), Console c2, Timeout 30000]\<rparr>"
    and reply: "wake_replies w (wake_requests (trace w)) = Wake_state s"
    and s: "s \<noteq> ''online''" and a: "a < 6"
  shows "wake_run a w
           (case res' of (Inl e, w5) \<Rightarrow> (Inl e, w5)
            | (Inr b, w5) \<Rightarrow> (Inr True, w5\<lparr>trace := trace w5 @ [Console c3]\<rparr>))
           ([Console c1, Wake_up (Wake_state s), Console c2, Timeout 30000] @ new' @
            (case fst res' of Inl e \<Rightarrow> [] | Inr b \<Rightarrow> [Console c3]))"
proof -
  obtain r' w5 where res': "res' = (r', w5)" by (cases res')
  let ?R = "wake_responses new'"
  from inner have tr: "trace w5 = trace w4 @ new'" and rep: "wake_replies w5 = wake_replies w4"
    and ne: "?R \<noteq> []" and len: "length ?R \<le> max 1 (7 - (a + 1))"
    and seq: "?R = map (wake_replies w4)
         [wake_requests (trace w4) ..< wake_requests (trace w4) + length ?R]"
    and wait: "list_all still_waiting (butlast ?R)"
    and quiet: "backoffs (after_wake_up (length ?R) new') = []"
    and fin: "last ?R = Wake_state ''online'' \<longrightarrow> r' = Inr True"
    and spent: "still_waiting (last ?R) \<longrightarrow> 7 \<le> (a + 1) + length ?R"
    and delays: "backoffs new' = replicate (length ?R - 1) 30000"
    by (simp_all add: wake_run_def res')
  have c4: "wake_requests (trace w4) = Suc (wake_requests (trace w))"
    by (simp add: w4 wake_requests_def)
  have r4: "wake_replies w4 = wake_replies w" by (simp add: w4)
  have len1: "1 \<le> length ?R" using ne by (cases ?R) simp_all
  have seq': "Wake_state s # ?R = map (wake_replies w)
         [wake_requests (trace w) ..< wake_requests (trace w) + Suc (length ?R)]"
  proof -
    have "[c ..< c + Suc n] = c # [Suc c ..< Suc c + n]" for c n :: nat
      by (simp add: upt_conv_Cons del: upt_Suc)
    then show ?thesis
      using seq reply by (simp add: c4 r4 del: upt_Suc)
  qed
  have after: "after_wake_up (Suc (length ?R)) ([Console c1, Wake_up (Wake_state s), Console c2, Timeout 30000] @ new' @ t)
                 = after_wake_up (length ?R) new' @ t" for t
    using len1 ne by (simp add: after_wake_up_append)
  have resp: "wake_responses ([Console c1, Wake_up (Wake_state s), Console c2, Timeout 30000] @ new' @ t)
                = Wake_state s # ?R" if "wake_responses t = []" for t
    using that by simp
  have run: "wake_run a w res ([Console c1, Wake_up (Wake_state s), Console c2, Timeout 30000] @ new' @ t)"
    if t: "trace (snd res) = trace w5 @ t" "wake_replies (snd res) = wake_replies w5"
      "wake_responses t = []" "backoffs t = []"
      and r: "r' = Inr True \<longrightarrow> fst res = Inr True"
    for res t
    unfolding wake_run_def resp [OF t(3)]
  proof (intro conjI)
    show "trace (snd res) = trace w @ [Console c1, Wake_up (Wake_state s), Console c2, Timeout 30000] @ new' @ t"
      by (simp add: t tr w4)
    show "wake_replies (snd res) = wake_replies w"
      by (simp add: t rep r4)
    show "Wake_state s # ?R \<noteq> []" by simp
    show "length (Wake_state s # ?R) \<le> max 1 (7 - a)"
      using len a by simp
    show "Wake_state s # ?R = map (wake_replies w)
            [wake_requests (trace w) ..< wake_requests (trace w) + length (Wake_state s # ?R)]"
      using seq' by (simp del: upt_Suc)
    show "list_all still_waiting (butlast (Wake_state s # ?R))"
      using ne wait s by simp
    show "backoffs (after_wake_up (length (Wake_state s # ?R))
            ([Console c1, Wake_up (Wake_state s), Console c2, Timeout 30000] @ new' @ t)) = []"
      using after [of t] quiet t(4) by simp
    show "last (Wake_state s # ?R) = Wake_state ''online'' \<longrightarrow> fst res = Inr True"
      using ne fin r by simp
    show "still_waiting (last (Wake_state s # ?R)) \<longrightarrow> 7 \<le> a + length (Wake_state s # ?R)"
      using ne spent by simp
    have "replicate (length ?R) (30000::nat) = 30000 # replicate (length ?R - 1) 30000"
      using len1 by (cases "length ?R") simp_all
    then show "backoffs ([Console c1, Wake_up (Wake_state s), Console c2, Timeout 30000] @ new' @ t)
        = replicate (length (Wake_state s # ?R) - 1) 30000"
      using delays t(4) by simp
  qed
  show ?thesis
  proof (cases r')
    case (Inl e)
    then show ?thesis
      using run [of "(Inl e, w5)" "[]"] fin by (simp add: res')
  next
    case (Inr b)
    then show ?thesis
      using run [of "(Inr True, w5\<lparr>trace := trace w5 @ [Console c3]\<rparr>)" "[Console c3]"]
      by (simp add: res')
  qed
qed

lemma wake_run_ex: "\<exists>new. wake_run a w (wakeUpVehicle a w) new"
proof (induction "6 - a" arbitrary: a w)
  case 0
  then have a: "6 \<le> a" by simp
  show ?case
  proof (cases "wake_replies w (wake_requests (trace w))")
    case Wake_failed
    then show ?thesis
      by (intro exI [of _ "[Console ''Attempting to wake up vehicle...'', Wake_up Wake_failed]"])
         (simp add: wake_failed wake_run_def)
  next
    case (Wake_state s)
    show ?thesis
    proof (cases "s = ''online''")
      case True
      with Wake_state show ?thesis
        by (intro exI [of _ "[Console ''Attempting to wake up vehicle...'',
              Wake_up (Wake_state ''online''), Console ''Vehicle is a awake!'']"])
           (simp add: wake_online wake_run_def)
    next
      case False
      with Wake_state a show ?thesis
        by (intro exI [of _ "[Console ''Attempting to wake up vehicle...'',
              Wake_up (Wake_state s), Console ''Vehicle did not wake up. Exiting process.'']"])
           (simp add: wake_gave_up wake_run_def)
    qed
  qed
next
  case (Suc k)
  then have a: "a < 6" and k: "k = 6 - (a + 1)" by simp_all
  show ?case
  proof (cases "wake_replies w (wake_requests (trace w))")
    case Wake_failed
    then show ?thesis
      by (intro exI [of _ "[Console ''Attempting to wake up vehicle...'', Wake_up Wake_failed]"])
         (simp add: wake_failed wake_run_def)
  next
    case (Wake_state s)
    show ?thesis
    proof (cases "s = ''online''")
      case True
      with Wake_state show ?thesis
        by (intro exI [of _ "[Console ''Attempting to wake up vehicle...'',
              Wake_up (Wake_state ''online''), Console ''Vehicle is a awake!'']"])
           (simp add: wake_online wake_run_def)
    next
      case False
      let ?w4 = "w\<lparr>trace := trace w @ [Console ''Attempting to wake up vehicle...'',
               Wake_up (Wake_state s),
               Console (''Vehicle is still '' @ s @ ''. Retrying in 30 seconds...''),
               Timeout 30000]\<rparr>"
      from Suc.hyps(1) [OF k] obtain new' where
        "wake_run (a + 1) ?w4 (wakeUpVehicle (a + 1) ?w4) new'" by blast
      from wake_run_retry [OF this refl Wake_state False a, of "''Vehicle is a awake!''"]
      show ?thesis
        by (subst wake_retry [OF Wake_state False a]) (rule exI)
    qed
  qed
qed


lemma nth_still_waiting:
  assumes "list_all still_waiting (butlast R)" and "1 \<le> n" and "n < length R"
  shows "still_waiting (R ! (n - 1))"
proof -
  from assms have "n - 1 < length (butlast R)" by simp
  with assms(1) have "still_waiting (butlast R ! (n - 1))"
    by (simp add: list_all_length)
  with \<open>n - 1 < length (butlast R)\<close> show ?thesis by (simp add: nth_butlast)
qed


section \<open>The wake-up loop and the run\<close>

lemma run_all_asleep:
  "wakeUpVehicle 1 (start (always ''asleep'') charge) =
    (Inr True,
     \<lparr>wake_replies = always ''asleep'', charge_reply = charge, lametric_reply = True,
      trace =
     [Console ''Attempting to wake up vehicle...'', Wake_up (Wake_state ''asleep''),
      Console ''Vehicle is still asleep. Retrying in 30 seconds...'', Timeout 30000,
      Console ''Attempting to wake up vehicle...'', Wake_up (Wake_state ''asleep''),
      Console ''Vehicle is still asleep. Retrying in 30 seconds...'', Timeout 30000,
      Console ''Attempting to wake up vehicle...'', Wake_up (Wake_state ''asleep''),
      Console ''Vehicle is still asleep. Retrying in 30 seconds...'', Timeout 30000,
      Console ''Attempting to wake up vehicle...'', Wake_up (Wake_state ''asleep''),
      Console ''Vehicle is still asleep. Retrying in 30 seconds...'', Timeout 30000,
      Console ''Attempting to wake up vehicle...'', Wake_up (Wake_state ''asleep''),
      Console ''Vehicle is still asleep. Retrying in 30 seconds...'', Timeout 30000,
      Console ''Attempting to wake up vehicle...'', Wake_up (Wake_state ''asleep''),
      Console ''Vehicle did not wake up. Exiting process.'',
      Console ''Vehicle is a awake!'', Console ''Vehicle is a awake!'',
      Console ''Vehicle is a awake!'', Console ''Vehicle is a awake!'',
      Console ''Vehicle is a awake!'']\<rparr>)"
  by (simp add: wakeUpVehicle.simps start_def always_def console_def emit_def
        fetch_WAKE_UP_def setTimeout_def wake_requests_def Let_def)

text \<open>
  Claim C1, evaluated on the program: the vehicle answers \<^verbatim>\<open>asleep\<close> to all six
  wake-up requests. The sixth call of \<^verbatim>\<open>wakeUpVehicle\<close> returns \<^verbatim>\<open>false\<close>, the five
  calls around it drop that value and return \<^verbatim>\<open>true\<close>, and \<^verbatim>\<open>runApp\<close> goes on to
  request the charge state, to build the frames and to post them to the display.
\<close>

theorem gave_up_is_dropped:
  "wake_responses (trace (snd (wakeUpVehicle 1 (start (always ''asleep'') (Charge_data (scenario 22 0))))))
     = [Wake_state ''asleep'', Wake_state ''asleep'', Wake_state ''asleep'',
        Wake_state ''asleep'', Wake_state ''asleep'', Wake_state ''asleep'']
   \<and> fst (wakeUpVehicle 1 (start (always ''asleep'') (Charge_data (scenario 22 0)))) = Inr True
   \<and> trace (snd (runApp (start (always ''asleep'') (Charge_data (scenario 22 0))))) =
       trace (snd (wakeUpVehicle 1 (start (always ''asleep'') (Charge_data (scenario 22 0))))) @
       [Console ''isAwake: true'',
        Console ''Attempting to get charge data...'',
        Charge_request (Charge_data (scenario 22 0)),
        Console ''Data fetched succesfully!'',
        Console_data (scenario 22 0),
        Console_message \<lparr>frames =
          [\<lparr>text = ''Tesla'', icon = ''i2735'', index = None\<rparr>,
           \<lparr>text = ''60%'', icon = ''21585'', index = None\<rparr>,
           \<lparr>text = ''180 mi'', icon = ''16716'', index = None\<rparr>,
           \<lparr>text = ''+5 mi'', icon = ''i95'', index = None\<rparr>,
           \<lparr>text = ''22 mph'', icon = ''i95'', index = None\<rparr>,
           \<lparr>text = ''1 hours remaining.'', icon = ''i95'', index = None\<rparr>]\<rparr>,
        Lametric_post \<lparr>frames =
          [\<lparr>text = ''Tesla'', icon = ''i2735'', index = None\<rparr>,
           \<lparr>text = ''60%'', icon = ''21585'', index = None\<rparr>,
           \<lparr>text = ''180 mi'', icon = ''16716'', index = None\<rparr>,
           \<lparr>text = ''+5 mi'', icon = ''i95'', index = None\<rparr>,
           \<lparr>text = ''22 mph'', icon = ''i95'', index = None\<rparr>,
           \<lparr>text = ''1 hours remaining.'', icon = ''i95'', index = None\<rparr>]\<rparr>,
        Console ''Update sent!'',
        Console_response,
        Console ''----------------------------------------------------------'']"
  unfolding runApp_def run_all_asleep
  by (simp add: Boolean_toString_def getChargeData_def console_def emit_def
        constructLametricData_app_def pushLametricData_def getIcon_app_def
        rendered_values Let_def)

text \<open>
  Claim C2: whatever the vehicle API replies, one call \<^verbatim>\<open>wakeUpVehicle()\<close> issues at
  most six wake-up requests, and the replies it receives are the replies of the API
  to these requests in order. For \<open>1 \<le> n \<le> 6\<close>, if the API answers the first \<open>n - 1\<close>
  requests with a state other than \<^verbatim>\<open>online\<close> and the \<open>n\<close>-th with \<^verbatim>\<open>online\<close>, then
  exactly \<open>n\<close> requests are issued, with \<open>n - 1\<close> delays of 30 seconds between them and
  no delay after the \<open>n\<close>-th, and the call returns \<^verbatim>\<open>true\<close>. The same holds whenever
  the \<open>n\<close>-th reply received reports \<^verbatim>\<open>online\<close>.
\<close>

theorem wake_retry_bound:
  assumes "tr = trace (snd (wakeUpVehicle 1 (start replies charge)))"
  shows "wake_requests tr \<le> 6
       \<and> wake_responses tr = map replies [0 ..< wake_requests tr]
       \<and> (1 \<le> n \<and> n \<le> 6
            \<and> list_all still_waiting (map replies [0 ..< n - 1])
            \<and> replies (n - 1) = Wake_state ''online''
          \<longrightarrow> wake_requests tr = n \<and> backoffs tr = replicate (n - 1) 30000
              \<and> backoffs (after_wake_up n tr) = []
              \<and> fst (wakeUpVehicle 1 (start replies charge)) = Inr True)
       \<and> (1 \<le> n \<and> n \<le> 6 \<and> n \<le> wake_requests tr
            \<and> wake_responses tr ! (n - 1) = Wake_state ''online''
          \<longrightarrow> wake_requests tr = n \<and> backoffs tr = replicate (n - 1) 30000
              \<and> backoffs (after_wake_up n tr) = []
              \<and> fst (wakeUpVehicle 1 (start replies charge)) = Inr True)"
proof -
  let ?w = "start replies charge"
  let ?R = "wake_responses tr"
  obtain new where run: "wake_run 1 ?w (wakeUpVehicle 1 ?w) new"
    using wake_run_ex by blast
  then have new: "new = tr" by (simp add: wake_run_def assms start_def)
  from run have ne: "?R \<noteq> []" and len: "length ?R \<le> 6"
    and seq: "?R = map replies [0 ..< length ?R]"
    and wait: "list_all still_waiting (butlast ?R)"
    and quiet: "backoffs (after_wake_up (length ?R) tr) = []"
    and fin: "last ?R = Wake_state ''online'' \<longrightarrow> fst (wakeUpVehicle 1 ?w) = Inr True"
    and spent: "still_waiting (last ?R) \<longrightarrow> 6 \<le> length ?R"
    and delays: "backoffs tr = replicate (length ?R - 1) 30000"
    unfolding new by (simp_all add: wake_run_def start_def wake_requests_def)
  have nth: "?R ! k = replies k" if "k < length ?R" for k
  proof -
    from that have "map replies [0 ..< length ?R] ! k = replies k" by simp
    with seq show ?thesis by simp
  qed
  have received: "wake_requests tr = n \<and> backoffs tr = replicate (n - 1) 30000
      \<and> backoffs (after_wake_up n tr) = []
      \<and> fst (wakeUpVehicle 1 ?w) = Inr True"
    if n: "1 \<le> n" "n \<le> wake_requests tr" and on: "?R ! (n - 1) = Wake_state ''online''"
    for n
  proof -
    have "\<not> n < length ?R"
      using nth_still_waiting [OF wait n(1)] on by auto
    with n(2) have eq: "n = length ?R" by (simp add: wake_requests_def)
    with ne on have "last ?R = Wake_state ''online''" by (simp add: last_conv_nth)
    with fin quiet delays eq show ?thesis by (simp add: wake_requests_def)
  qed
  have replied: "wake_requests tr = n \<and> backoffs tr = replicate (n - 1) 30000
      \<and> backoffs (after_wake_up n tr) = []
      \<and> fst (wakeUpVehicle 1 ?w) = Inr True"
    if n: "1 \<le> n" "n \<le> 6" and before: "list_all still_waiting (map replies [0 ..< n - 1])"
      and on: "replies (n - 1) = Wake_state ''online''"
  proof -
    have early: "still_waiting (replies k)" if "k < n - 1" for k
      using before that by (simp add: list_all_length)
    have "\<not> length ?R < n"
    proof
      assume short: "length ?R < n"
      from ne have pos: "0 < length ?R" by simp
      with ne have "last ?R = replies (length ?R - 1)"
        using nth [of "length ?R - 1"] by (simp add: last_conv_nth)
      moreover from short pos have "length ?R - 1 < n - 1" by arith
      ultimately have "still_waiting (last ?R)" using early by simp
      with spent have "6 \<le> length ?R" by simp
      with short n(2) show False by simp
    qed
    then have reached: "n \<le> wake_requests tr" by (simp add: wake_requests_def)
    with n(1) have "n - 1 < length ?R" by (simp add: wake_requests_def)
    then have "?R ! (n - 1) = Wake_state ''online''" using nth on by simp
    with n(1) reached show ?thesis by (rule received)
  qed
  have bound: "wake_requests tr \<le> 6" using len by (simp add: wake_requests_def)
  have order: "?R = map replies [0 ..< wake_requests tr]"
    using seq by (simp add: wake_requests_def)
  from bound order replied received show ?thesis by blast
qed

lemma trace_third_online:
  "trace (snd (wakeUpVehicle 1 (start (asleep_until 3) Charge_failed))) =
     [Console ''Attempting to wake up vehicle...'', Wake_up (Wake_state ''asleep''),
      Console ''Vehicle is still asleep. Retrying in 30 seconds...'', Timeout 30000,
      Console ''Attempting to wake up vehicle...'', Wake_up (Wake_state ''asleep''),
      Console ''Vehicle is still asleep. Retrying in 30 seconds...'', Timeout 30000,
      Console ''Attempting to wake up vehicle...'', Wake_up (Wake_state ''online''),
      Console ''Vehicle is a awake!'', Console ''Vehicle is a awake!'',
      Console ''Vehicle is a awake!'']"
  by (simp add: wakeUpVehicle.simps start_def asleep_until_def console_def emit_def
        fetch_WAKE_UP_def setTimeout_def wake_requests_def Let_def)

text \<open>
  Witness for C2: the vehicle reports \<^verbatim>\<open>asleep\<close> twice and \<^verbatim>\<open>online\<close> at the third
  request. Three requests and two delays of 30 seconds are made, none after the third.
\<close>

theorem wake_retry_bound_witness:
  "(1::nat) \<le> 3 \<and> (3::nat) \<le> 6
   \<and> list_all still_waiting (map (asleep_until 3) [0 ..< 3 - 1])
   \<and> asleep_until 3 (3 - 1) = Wake_state ''online''
   \<and> 3 \<le> wake_requests (trace (snd (wakeUpVehicle 1 (start (asleep_until 3) Charge_failed))))
   \<and> wake_responses (trace (snd (wakeUpVehicle 1 (start (asleep_until 3) Charge_failed)))) ! (3 - 1)
       = Wake_state ''online''
   \<and> wake_requests (trace (snd (wakeUpVehicle 1 (start (asleep_until 3) Charge_failed)))) = 3
   \<and> wake_responses (trace (snd (wakeUpVehicle 1 (start (asleep_until 3) Charge_failed))))
       = [Wake_state ''asleep'', Wake_state ''asleep'', Wake_state ''online'']
   \<and> backoffs (trace (snd (wakeUpVehicle 1 (start (asleep_until 3) Charge_failed))))
       = [30000, 30000]
   \<and> backoffs (after_wake_up 3 (trace (snd (wakeUpVehicle 1 (start (asleep_until 3) Charge_failed))))) = []
   \<and> fst (wakeUpVehicle 1 (start (asleep_until 3) Charge_failed)) = Inr True"
proof -
  let ?tr = "trace (snd (wakeUpVehicle 1 (start (asleep_until 3) Charge_failed)))"
  have replies: "(1::nat) \<le> 3 \<and> (3::nat) \<le> 6
      \<and> list_all still_waiting (map (asleep_until 3) [0 ..< 3 - 1])
      \<and> asleep_until 3 (3 - 1) = Wake_state ''online''"
    by code_simp
  have hyp: "(1::nat) \<le> 3 \<and> (3::nat) \<le> 6 \<and> 3 \<le> wake_requests ?tr
      \<and> wake_responses ?tr ! (3 - 1) = Wake_state ''online''"
    unfolding trace_third_online wake_requests_def by simp
  have obs: "wake_responses ?tr = [Wake_state ''asleep'', Wake_state ''asleep'', Wake_state ''online'']"
    "backoffs ?tr = [30000, 30000]"
    unfolding trace_third_online by simp_all
  from wake_retry_bound [OF refl, of "asleep_until 3" Charge_failed 3] replies
  have "wake_requests ?tr = 3 \<and> backoffs (after_wake_up 3 ?tr) = []
      \<and> fst (wakeUpVehicle 1 (start (asleep_until 3) Charge_failed)) = Inr True"
    by blast
  with replies hyp obs show ?thesis by blast
qed

section \<open>Icons\<close>

text \<open>
  Claim C3, as the programs have it, for every battery level from 0 to 100. In the
  second program \<^verbatim>\<open>getIcon\<close> returns the fixed icon \<^verbatim>\<open>3582\<close> when the vehicle is not
  charging, and when it is charging the icon of the one band that contains the level.
  In \<^verbatim>\<open>app.js\<close> it is the other way round: when charging it returns the fixed
  animation icon \<^verbatim>\<open>21585\<close>, and when not charging the icon of the one band that
  contains the level.
\<close>

theorem getIcon_bands:
  assumes "0 \<le> b" and "b \<le> 100"
  shows "getIcon_part0 b False = ''3582'' \<and> band_icons b = [getIcon_part0 b True]
       \<and> getIcon_app b True = ''21585'' \<and> band_icons b = [getIcon_app b False]"
  using assms by (auto simp: getIcon_part0_def getIcon_app_def band_icons_def tier_bands_def)

text \<open>Witness for C3, at the level 60 and at the bounds of the bands.\<close>

theorem getIcon_bands_witness:
  "(0::rat) \<le> 60 \<and> (60::rat) \<le> 100
   \<and> getIcon_part0 60 False = ''3582'' \<and> getIcon_part0 60 True = ''i6361''
   \<and> getIcon_app 60 True = ''21585'' \<and> getIcon_app 60 False = ''i6361''
   \<and> band_icons 60 = [''i6361'']
   \<and> [getIcon_part0 0 True] = band_icons 0 \<and> [getIcon_part0 25 True] = band_icons 25
   \<and> [getIcon_part0 95 True] = band_icons 95 \<and> [getIcon_part0 100 True] = band_icons 100"
proof -
  have bands: "band_icons 60 = [''i6361'']"
    by (simp add: band_icons_def tier_bands_def)
  have range: "(0::rat) \<le> 60 \<and> (60::rat) \<le> 100" by simp
  have "getIcon_part0 60 False = ''3582'' \<and> getIcon_part0 60 True = ''i6361''
      \<and> getIcon_app 60 True = ''21585'' \<and> getIcon_app 60 False = ''i6361''"
    using getIcon_bands [of 60] unfolding bands by auto
  moreover have "[getIcon_part0 0 True] = band_icons 0 \<and> [getIcon_part0 25 True] = band_icons 25
      \<and> [getIcon_part0 95 True] = band_icons 95 \<and> [getIcon_part0 100 True] = band_icons 100"
    using getIcon_bands [of 0] getIcon_bands [of 25] getIcon_bands [of 95] getIcon_bands [of 100]
    by simp
  ultimately show ?thesis using range bands by blast
qed

text \<open>
  Counterexample to C3 as stated: in \<^verbatim>\<open>app.js\<close> the icon of a vehicle that is not
  charging is not a fixed one; it differs between the levels 10 and 60.
\<close>

theorem getIcon_app_idle_counterexample:
  "getIcon_app 10 False \<noteq> getIcon_app 60 False"
  by (simp add: getIcon_app_def)

section \<open>Frames\<close>

text \<open>
  Claim C4: in \<^verbatim>\<open>app.js\<close> the charging flag is \<^verbatim>\<open>charge_rate != -1.0\<close>. The frames are
  the three base frames, whose battery icon is chosen with that flag, followed by the
  three charging frames when \<^verbatim>\<open>charge_rate\<close> is not \<open>-1\<close>, six in all, and by nothing
  when it is \<open>-1\<close>.
\<close>

theorem policy_B_frame_count:
  "length (frames (fst (constructLametricData_app d w))) =
     (if charge_rate (response d) = - 1 then 3 else 6)
   \<and> take 3 (frames (fst (constructLametricData_app d w))) =
       [\<lparr>text = ''Tesla'', icon = ''i2735'', index = None\<rparr>,
        \<lparr>text = Number_toString (Math_round (battery_level (response d))) @ ''%'',
         icon = getIcon_app (battery_level (response d)) (charge_rate (response d) \<noteq> - 1),
         index = None\<rparr>,
        \<lparr>text = Number_toString (Math_round (battery_range (response d))) @ '' mi'',
         icon = ''16716'', index = None\<rparr>]
   \<and> drop 3 (frames (fst (constructLametricData_app d w))) =
       (if charge_rate (response d) = - 1 then []
        else [\<lparr>text = ''+'' @ Number_toString (Math_round (charge_miles_added_ideal (response d))) @ '' mi'',
               icon = ''i95'', index = None\<rparr>,
              \<lparr>text = Number_toString (Math_round (charge_rate (response d))) @ '' mph'',
               icon = ''i95'', index = None\<rparr>,
              \<lparr>text = Number_toString (Math_round (time_to_full_charge (response d))) @ '' hours remaining.'',
               icon = ''i95'', index = None\<rparr>])"
  by (simp add: frames_app)

text \<open>
  Witness for C4: a charge rate of 0 counts as charging and gives six frames, a charge
  rate of \<open>-1\<close> gives three.
\<close>

theorem policy_B_frame_count_witness:
  "length (frames (fst (constructLametricData_app (scenario 0 0) (start (always ''online'') Charge_failed)))) = 6
   \<and> drop 3 (frames (fst (constructLametricData_app (scenario 0 0) (start (always ''online'') Charge_failed)))) =
       [\<lparr>text = ''+5 mi'', icon = ''i95'', index = None\<rparr>,
        \<lparr>text = ''0 mph'', icon = ''i95'', index = None\<rparr>,
        \<lparr>text = ''1 hours remaining.'', icon = ''i95'', index = None\<rparr>]
   \<and> length (frames (fst (constructLametricData_app (scenario (- 1) 0) (start (always ''online'') Charge_failed)))) = 3
   \<and> drop 3 (frames (fst (constructLametricData_app (scenario (- 1) 0) (start (always ''online'') Charge_failed)))) = []"
  using policy_B_frame_count [of "scenario 0 0" "start (always ''online'') Charge_failed"]
    policy_B_frame_count [of "scenario (- 1) 0" "start (always ''online'') Charge_failed"]
  by (simp add: rendered_values)

text \<open>
  Claim C5, as the second program has it: the payload has exactly three frames, the
  label, the rounded battery level and the rounded range, and charging changes the
  icon of the second frame only. The charging flag is \<^verbatim>\<open>charger_actual_current > 0\<close>;
  the field \<^verbatim>\<open>charge_rate\<close> is not read and has no effect on the payload.
\<close>

theorem policy_A_frames:
  "frames (fst (constructLametricData_part0 d w)) =
     [\<lparr>text = ''Tesla'', icon = ''i2735'', index = Some 0\<rparr>,
      \<lparr>text = Number_toString (Math_round (battery_level (response d))) @ ''%'',
       icon = (if 0 < charger_actual_current (response d)
               then getIcon_part0 (battery_level (response d)) True else ''3582''),
       index = Some 1\<rparr>,
      \<lparr>text = Number_toString (Math_round (battery_range (response d))) @ '' mi'',
       icon = ''i16716'', index = Some 2\<rparr>]
   \<and> length (frames (fst (constructLametricData_part0 d w))) = 3
   \<and> fst (constructLametricData_part0 (d\<lparr>response := (response d)\<lparr>charge_rate := r\<rparr>\<rparr>) w)
       = fst (constructLametricData_part0 d w)"
  by (simp add: frames_part0 getIcon_part0_def constructLametricData_part0_def Let_def)

text \<open>
  Counterexample to C5 as stated: with a charge rate of 22 and a charger current of 0
  the rule \<open>charge_rate > 0\<close> says charging, and the icon on the second frame is not the
  one \<^verbatim>\<open>getIcon\<close> gives for a charging vehicle.
\<close>

theorem policy_A_charge_rate_counterexample:
  "isCharging_spec_A (scenario 22 0)
   \<and> icon (frames (fst (constructLametricData_part0 (scenario 22 0) (start (always ''online'') Charge_failed))) ! 1)
       \<noteq> getIcon_part0 (battery_level (response (scenario 22 0))) (isCharging_spec_A (scenario 22 0))"
  by (simp add: frames_part0 isCharging_spec_A_def getIcon_part0_def)

text \<open>
  Claim C6, as \<^verbatim>\<open>app.js\<close> has it: the reading of the scenario gives six frames with
  the texts \<^verbatim>\<open>Tesla\<close>, \<^verbatim>\<open>60%\<close>, \<^verbatim>\<open>180 mi\<close>, \<^verbatim>\<open>+5 mi\<close>, \<^verbatim>\<open>22 mph\<close> and
  \<^verbatim>\<open>1 hours remaining.\<close> in this order, and the second frame carries the charging
  animation icon \<^verbatim>\<open>21585\<close>.
\<close>

theorem scenario_payload:
  "frames (fst (constructLametricData_app (scenario 22 c) w)) =
     [\<lparr>text = ''Tesla'', icon = ''i2735'', index = None\<rparr>,
      \<lparr>text = ''60%'', icon = ''21585'', index = None\<rparr>,
      \<lparr>text = ''180 mi'', icon = ''16716'', index = None\<rparr>,
      \<lparr>text = ''+5 mi'', icon = ''i95'', index = None\<rparr>,
      \<lparr>text = ''22 mph'', icon = ''i95'', index = None\<rparr>,
      \<lparr>text = ''1 hours remaining.'', icon = ''i95'', index = None\<rparr>]"
  by (simp add: frames_app rendered_values getIcon_app_def)

text \<open>
  Counterexample to C6 as stated: the icon of the band \<open>[50,75)\<close> is \<^verbatim>\<open>i6361\<close>, and it
  is not the icon of the second frame.
\<close>

theorem scenario_icon_counterexample:
  "band_icons 60 = [''i6361'']
   \<and> icon (frames (fst (constructLametricData_app (scenario 22 0) (start (always ''online'') Charge_failed))) ! 1)
       \<noteq> ''i6361''"
  by (simp add: frames_app getIcon_app_def band_icons_def tier_bands_def)

text \<open>
  Claim C7: both programs render a field as the decimal numeral of the field rounded
  half away from zero, for non-negative fields, and the rounded value is within one
  half of the field. A battery level of 87.6 gives \<^verbatim>\<open>88%\<close> and a range of 142.4 gives
  \<^verbatim>\<open>142 mi\<close>.
\<close>

theorem formatter_rounding:
  assumes "plain_nonneg (battery_level (response d))"
    and "plain_nonneg (battery_range (response d))"
    and "charge_rate (response d) \<noteq> - 1 \<Longrightarrow>
           plain_nonneg (charge_miles_added_ideal (response d))
         \<and> plain_nonneg (charge_rate (response d))
         \<and> plain_nonneg (time_to_full_charge (response d))"
  shows "map text (frames (fst (constructLametricData_app d w))) =
       [''Tesla'',
        Number_toString (round_half_away_from_zero (battery_level (response d))) @ ''%'',
        Number_toString (round_half_away_from_zero (battery_range (response d))) @ '' mi''] @
       (if charge_rate (response d) = - 1 then []
        else [''+'' @ Number_toString (round_half_away_from_zero (charge_miles_added_ideal (response d))) @ '' mi'',
              Number_toString (round_half_away_from_zero (charge_rate (response d))) @ '' mph'',
              Number_toString (round_half_away_from_zero (time_to_full_charge (response d))) @ '' hours remaining.''])
   \<and> map text (frames (fst (constructLametricData_part0 d w))) =
       [''Tesla'',
        Number_toString (round_half_away_from_zero (battery_level (response d))) @ ''%'',
        Number_toString (round_half_away_from_zero (battery_range (response d))) @ '' mi'']
   \<and> \<bar>battery_level (response d) - of_int (Math_round (battery_level (response d)))\<bar> \<le> 1 / 2
   \<and> \<bar>battery_range (response d) - of_int (Math_round (battery_range (response d)))\<bar> \<le> 1 / 2
   \<and> \<bar>charge_miles_added_ideal (response d) - of_int (Math_round (charge_miles_added_ideal (response d)))\<bar> \<le> 1 / 2
   \<and> \<bar>charge_rate (response d) - of_int (Math_round (charge_rate (response d)))\<bar> \<le> 1 / 2
   \<and> \<bar>time_to_full_charge (response d) - of_int (Math_round (time_to_full_charge (response d)))\<bar> \<le> 1 / 2
   \<and> (battery_level (response d) = 87.6 \<longrightarrow>
        text (frames (fst (constructLametricData_app d w)) ! 1) = ''88%''
      \<and> text (frames (fst (constructLametricData_part0 d w)) ! 1) = ''88%'')
   \<and> (battery_range (response d) = 142.4 \<longrightarrow>
        text (frames (fst (constructLametricData_app d w)) ! 2) = ''142 mi''
      \<and> text (frames (fst (constructLametricData_part0 d w)) ! 2) = ''142 mi'')"
proof -
  have level: "Math_round (battery_level (response d))
      = round_half_away_from_zero (battery_level (response d))"
    and range: "Math_round (battery_range (response d))
      = round_half_away_from_zero (battery_range (response d))"
    using assms(1,2) by (simp_all add: plain_nonneg_def Math_round_nonneg)
  have charging: "Math_round (charge_miles_added_ideal (response d))
        = round_half_away_from_zero (charge_miles_added_ideal (response d))
      \<and> Math_round (charge_rate (response d))
        = round_half_away_from_zero (charge_rate (response d))
      \<and> Math_round (time_to_full_charge (response d))
        = round_half_away_from_zero (time_to_full_charge (response d))"
    if "charge_rate (response d) \<noteq> - 1"
    using assms(3) [OF that] by (simp add: plain_nonneg_def Math_round_nonneg)
  have app: "map text (frames (fst (constructLametricData_app d w))) =
       [''Tesla'',
        Number_toString (round_half_away_from_zero (battery_level (response d))) @ ''%'',
        Number_toString (round_half_away_from_zero (battery_range (response d))) @ '' mi''] @
       (if charge_rate (response d) = - 1 then []
        else [''+'' @ Number_toString (round_half_away_from_zero (charge_miles_added_ideal (response d))) @ '' mi'',
              Number_toString (round_half_away_from_zero (charge_rate (response d))) @ '' mph'',
              Number_toString (round_half_away_from_zero (time_to_full_charge (response d))) @ '' hours remaining.''])"
    using charging by (simp add: frames_app level range)
  have part0: "map text (frames (fst (constructLametricData_part0 d w))) =
       [''Tesla'',
        Number_toString (round_half_away_from_zero (battery_level (response d))) @ ''%'',
        Number_toString (round_half_away_from_zero (battery_range (response d))) @ '' mi'']"
    by (simp add: frames_part0 level range)
  have near: "\<bar>battery_level (response d) - of_int (Math_round (battery_level (response d)))\<bar> \<le> 1 / 2
      \<and> \<bar>battery_range (response d) - of_int (Math_round (battery_range (response d)))\<bar> \<le> 1 / 2
      \<and> \<bar>charge_miles_added_ideal (response d) - of_int (Math_round (charge_miles_added_ideal (response d)))\<bar> \<le> 1 / 2
      \<and> \<bar>charge_rate (response d) - of_int (Math_round (charge_rate (response d)))\<bar> \<le> 1 / 2
      \<and> \<bar>time_to_full_charge (response d) - of_int (Math_round (time_to_full_charge (response d)))\<bar> \<le> 1 / 2"
    by (intro conjI Math_round_near)
  have l: "text (frames (fst (constructLametricData_app d w)) ! 1) = ''88%''
      \<and> text (frames (fst (constructLametricData_part0 d w)) ! 1) = ''88%''"
    if "battery_level (response d) = 87.6"
    by (simp add: frames_app frames_part0 that rendered_values)
  have r: "text (frames (fst (constructLametricData_app d w)) ! 2) = ''142 mi''
      \<and> text (frames (fst (constructLametricData_part0 d w)) ! 2) = ''142 mi''"
    if "battery_range (response d) = 142.4"
    by (simp add: frames_app frames_part0 that rendered_values)
  from app part0 near l r show ?thesis by blast
qed

text \<open>
  Witness for C7: the reading of the claim, not charging, and a charging reading whose
  fields end in one half.
\<close>

theorem formatter_rounding_witness:
  "plain_nonneg 87.6 \<and> plain_nonneg 142.4
   \<and> map text (frames (fst (constructLametricData_app (reading 87.6 142.4 (- 1) 0 0)
          (start (always ''online'') Charge_failed)))) = [''Tesla'', ''88%'', ''142 mi'']
   \<and> map text (frames (fst (constructLametricData_part0 (reading 87.6 142.4 (- 1) 0 0)
          (start (always ''online'') Charge_failed)))) = [''Tesla'', ''88%'', ''142 mi'']
   \<and> plain_nonneg 87.5 \<and> plain_nonneg 142.5 \<and> plain_nonneg 5.5 \<and> plain_nonneg 22
   \<and> plain_nonneg 0.5
   \<and> map text (frames (fst (constructLametricData_app (reading 87.5 142.5 22 5.5 0.5)
          (start (always ''online'') Charge_failed)))) =
       [''Tesla'', ''88%'', ''143 mi'', ''+6 mi'', ''22 mph'', ''1 hours remaining.'']"
proof -
  have plain: "plain_nonneg 87.6" "plain_nonneg 142.4" "plain_nonneg 87.5" "plain_nonneg 142.5"
    "plain_nonneg 5.5" "plain_nonneg 22" "plain_nonneg 0.5"
    by (simp_all add: plain_nonneg_def)
  have rounded: "Number_toString (round_half_away_from_zero 87.6) = ''88''"
    "Number_toString (round_half_away_from_zero 142.4) = ''142''"
    "Number_toString (round_half_away_from_zero 87.5) = ''88''"
    "Number_toString (round_half_away_from_zero 142.5) = ''143''"
    "Number_toString (round_half_away_from_zero 5.5) = ''6''"
    "Number_toString (round_half_away_from_zero 22) = ''22''"
    "Number_toString (round_half_away_from_zero 0.5) = ''1''"
    by code_simp+
  have idle: "map text (frames (fst (constructLametricData_app (reading 87.6 142.4 (- 1) 0 0)
          (start (always ''online'') Charge_failed)))) = [''Tesla'', ''88%'', ''142 mi'']
    \<and> map text (frames (fst (constructLametricData_part0 (reading 87.6 142.4 (- 1) 0 0)
          (start (always ''online'') Charge_failed)))) = [''Tesla'', ''88%'', ''142 mi'']"
    using formatter_rounding [of "reading 87.6 142.4 (- 1) 0 0" "start (always ''online'') Charge_failed"]
      plain rounded by simp
  have charging: "map text (frames (fst (constructLametricData_app (reading 87.5 142.5 22 5.5 0.5)
          (start (always ''online'') Charge_failed)))) =
       [''Tesla'', ''88%'', ''143 mi'', ''+6 mi'', ''22 mph'', ''1 hours remaining.'']"
    using formatter_rounding [of "reading 87.5 142.5 22 5.5 0.5" "start (always ''online'') Charge_failed"]
      plain rounded by simp
  from plain idle charging show ?thesis by blast
qed

text \<open>
  Claim C8, as the programs have it: in both programs \<^verbatim>\<open>constructLametricData\<close> is
  deterministic and reads nothing but its argument. The payload it returns is the same
  in every world, and the same again when the function is run a second time in the
  world the first run left. It is not free of effects: each run leaves the world as it
  was except for one more line on the console, which shows the payload, and that line
  too is the same in every world.
\<close>

theorem formatter_deterministic:
  "fst (constructLametricData_app d w) = fst (constructLametricData_app d w')
   \<and> fst (constructLametricData_part0 d w) = fst (constructLametricData_part0 d w')
   \<and> fst (constructLametricData_app d (snd (constructLametricData_app d w)))
       = fst (constructLametricData_app d w)
   \<and> fst (constructLametricData_part0 d (snd (constructLametricData_part0 d w)))
       = fst (constructLametricData_part0 d w)
   \<and> snd (constructLametricData_app d w) =
       w\<lparr>trace := trace w @ [Console_message (fst (constructLametricData_app d w'))]\<rparr>
   \<and> snd (constructLametricData_part0 d w) =
       w\<lparr>trace := trace w @ [Console_message (fst (constructLametricData_part0 d w'))]\<rparr>"
  by (simp add: constructLametricData_app_def constructLametricData_part0_def emit_def Let_def)

text \<open>
  Counterexample to C8 as stated: the function is not pure. Run on the reading of the
  scenario in a world with an empty trace, each program leaves a world whose trace is
  not empty.
\<close>

theorem formatter_pure_counterexample:
  "trace (start (always ''online'') Charge_failed) = []
   \<and> trace (snd (constructLametricData_app (scenario 22 0) (start (always ''online'') Charge_failed)))
       \<noteq> []
   \<and> snd (constructLametricData_app (scenario 22 0) (start (always ''online'') Charge_failed))
       \<noteq> start (always ''online'') Charge_failed
   \<and> trace (snd (constructLametricData_part0 (scenario 22 0) (start (always ''online'') Charge_failed)))
       \<noteq> []
   \<and> snd (constructLametricData_part0 (scenario 22 0) (start (always ''online'') Charge_failed))
       \<noteq> start (always ''online'') Charge_failed"
proof -
  let ?w = "start (always ''online'') Charge_failed"
  have empty: "trace ?w = []" by (simp add: start_def)
  have app: "trace (snd (constructLametricData_app (scenario 22 0) ?w)) \<noteq> []"
    by (simp add: constructLametricData_app_def emit_def Let_def)
  have part0: "trace (snd (constructLametricData_part0 (scenario 22 0) ?w)) \<noteq> []"
    by (simp add: constructLametricData_part0_def emit_def Let_def)
  from empty app have "snd (constructLametricData_app (scenario 22 0) ?w) \<noteq> ?w" by auto
  moreover from empty part0 have "snd (constructLametricData_part0 (scenario 22 0) ?w) \<noteq> ?w"
    by auto
  ultimately show ?thesis using empty app part0 by (intro conjI)
qed

text \<open>
  Claim C9: in both programs the payload is never empty, and its frames come in one
  order: the label, the battery level, the range and then, in \<^verbatim>\<open>app.js\<close> when
  charging, the miles added, the charge rate and the hours remaining.
\<close>

theorem frames_order:
  "frames (fst (constructLametricData_app d w)) \<noteq> []
   \<and> frames (fst (constructLametricData_part0 d w)) \<noteq> []
   \<and> map text (frames (fst (constructLametricData_app d w))) =
       [''Tesla'',
        Number_toString (Math_round (battery_level (response d))) @ ''%'',
        Number_toString (Math_round (battery_range (response d))) @ '' mi''] @
       (if charge_rate (response d) = - 1 then []
        else [''+'' @ Number_toString (Math_round (charge_miles_added_ideal (response d))) @ '' mi'',
              Number_toString (Math_round (charge_rate (response d))) @ '' mph'',
              Number_toString (Math_round (time_to_full_charge (response d))) @ '' hours remaining.''])
   \<and> map text (frames (fst (constructLametricData_part0 d w))) =
       [''Tesla'',
        Number_toString (Math_round (battery_level (response d))) @ ''%'',
        Number_toString (Math_round (battery_range (response d))) @ '' mi'']
   \<and> map index (frames (fst (constructLametricData_part0 d w))) = [Some 0, Some 1, Some 2]"
  by (simp add: frames_app frames_part0)

text \<open>
  Claim C10: in both programs the first frame has the text \<^verbatim>\<open>Tesla\<close> and the icon
  \<^verbatim>\<open>i2735\<close> for every reading; the second program numbers it 0.
\<close>

theorem first_frame_constant:
  "hd (frames (fst (constructLametricData_app d w))) = \<lparr>text = ''Tesla'', icon = ''i2735'', index = None\<rparr>
   \<and> hd (frames (fst (constructLametricData_part0 d w))) = \<lparr>text = ''Tesla'', icon = ''i2735'', index = Some 0\<rparr>"
  by (simp add: frames_app frames_part0)


end
